theory Spec2Isabelle
  imports Main "HOL-Library.AList"
begin

section \<open>Values, errors, requests and responses\<close>

text \<open>
  JSON data as Python holds it after \<^verbatim>\<open>json.loads\<close>: a dict keeps the insertion order
  of its keys, so an object is an association list. A string value is the byte sequence
  of its UTF-8 encoding.
\<close>

datatype json =
    JNull
  | JBool bool
  | JInt int
  | JStr string
  | JList "json list"
  | JObj "(string \<times> json) list"

text \<open>The exceptions that the handlers and the libraries under them can raise.\<close>

datatype py_error =
    TypeError
  | ValueError
  | KeyError
  | AttributeError
  | JSONDecodeError
  | OverflowError
  | IntegrityError
  | ProgrammingError
  | OperationalError
  | InvalidRequestError

text \<open>
  A request, as far as the handlers read it: the route's match info and the outcome of
  \<^verbatim>\<open>await request.json()\<close>, which raises on a malformed body. A value of the match
  info is a Python \<^verbatim>\<open>str\<close>: the list of its code points.
\<close>

type_synonym str = "nat list"

record request =
  match_info :: "(string \<times> str) list"
  json_result :: "py_error + json"

text \<open>The \<^verbatim>\<open>str\<close> of an ASCII literal.\<close>

definition codes :: "string \<Rightarrow> str" where
  "codes s = map of_char s"

text \<open>
  A response: its status and its JSON payload (\<open>None\<close> for \<^verbatim>\<open>web.Response\<close> with no
  body). \<^verbatim>\<open>web.json_response\<close> serialises the payload with \<^verbatim>\<open>json.dumps\<close>, a function
  of the payload alone, so equal payloads are equal bodies.
\<close>

record response =
  status :: nat
  body :: "json option"

definition web_json_response :: "json \<Rightarrow> nat \<Rightarrow> response" where
  "web_json_response data st = \<lparr>status = st, body = Some data\<rparr>"

definition web_Response :: "nat \<Rightarrow> response" where
  "web_Response st = \<lparr>status = st, body = None\<rparr>"

section \<open>Python's int() on a str\<close>

text \<open>
  \<^verbatim>\<open>int(s)\<close> in base 10, as CPython 3.11 computes it. First every code point beyond
  ASCII is replaced: a Unicode whitespace by a space, a Unicode decimal digit (Unicode
  14: runs of ten code points, each run given by its zero) by the ASCII digit of its
  value; any other makes the conversion fail. The ASCII text is then read: the ASCII
  whitespace around it is skipped (space, tab, newline, vertical tab, form feed,
  carriage return; the separators \<^verbatim>\<open>0x1C\<close> to \<^verbatim>\<open>0x1F\<close> are not skipped), one sign may
  lead, then come decimal digits, where single underscores may separate digits. Anything
  else raises \<^verbatim>\<open>ValueError\<close>, and so does a numeral of more digits than the
  interpreter's default limit.
\<close>

definition unicode_space :: "nat \<Rightarrow> bool" where
  "unicode_space c =
     (c \<in> set [0x85, 0xA0, 0x1680, 0x2028, 0x2029, 0x202F, 0x205F, 0x3000] \<or>
      (0x2000 \<le> c \<and> c \<le> 0x200A))"

definition decimal_zeros :: "nat list" where
  "decimal_zeros =
     [0x660, 0x6F0, 0x7C0, 0x966, 0x9E6, 0xA66, 0xAE6, 0xB66, 0xBE6, 0xC66,
      0xCE6, 0xD66, 0xDE6, 0xE50, 0xED0, 0xF20, 0x1040, 0x1090, 0x17E0, 0x1810,
      0x1946, 0x19D0, 0x1A80, 0x1A90, 0x1B50, 0x1BB0, 0x1C40, 0x1C50, 0xA620, 0xA8D0,
      0xA900, 0xA9D0, 0xA9F0, 0xAA50, 0xABF0, 0xFF10, 0x104A0, 0x10D30, 0x11066, 0x110F0,
      0x11136, 0x111D0, 0x112F0, 0x11450, 0x114D0, 0x11650, 0x116C0, 0x11730, 0x118E0, 0x11950,
      0x11C50, 0x11D50, 0x11DA0, 0x16A60, 0x16AC0, 0x16B50, 0x1D7CE, 0x1D7D8, 0x1D7E2, 0x1D7EC,
      0x1D7F6, 0x1E140, 0x1E2F0, 0x1E950, 0x1FBF0]"

definition unicode_decimal :: "nat \<Rightarrow> nat option" where
  "unicode_decimal c =
     (case find (\<lambda>z. z \<le> c \<and> c < z + 10) decimal_zeros of
        None \<Rightarrow> None
      | Some z \<Rightarrow> Some (c - z))"

definition to_ascii :: "nat \<Rightarrow> nat option" where
  "to_ascii c =
     (if c < 128 then Some c
      else if unicode_space c then Some 32
      else map_option (\<lambda>d. 48 + d) (unicode_decimal c))"

definition is_space :: "nat \<Rightarrow> bool" where
  "is_space c = (c \<in> set [32, 9, 10, 11, 12, 13])"

definition is_digit :: "nat \<Rightarrow> bool" where
  "is_digit c = (48 \<le> c \<and> c \<le> 57)"

definition digit_val :: "nat \<Rightarrow> int" where
  "digit_val c = int c - 48"

definition strip :: "nat list \<Rightarrow> nat list" where
  "strip s = rev (dropWhile is_space (rev (dropWhile is_space s)))"

fun parse_digits :: "int \<Rightarrow> bool \<Rightarrow> nat list \<Rightarrow> int option" where
  "parse_digits acc prev [] = (if prev then Some acc else None)"
| "parse_digits acc prev (c # cs) =
     (if is_digit c then parse_digits (10 * acc + digit_val c) True cs
      else if c = 95 \<and> prev then parse_digits acc False cs
      else None)"

definition max_str_digits :: nat where
  "max_str_digits = 4300"

text \<open>The signed numeral of ASCII text whose whitespace is stripped: \<^verbatim>\<open>45\<close> is the
  minus sign, \<^verbatim>\<open>43\<close> the plus sign, \<^verbatim>\<open>95\<close> above the underscore.\<close>

definition parse_signed :: "nat list \<Rightarrow> int option" where
  "parse_signed t =
     (case t of
        [] \<Rightarrow> None
      | c # cs \<Rightarrow>
          if c = 45 then map_option uminus (parse_digits 0 False cs)
          else if c = 43 then parse_digits 0 False cs
          else parse_digits 0 False (c # cs))"

definition py_int :: "str \<Rightarrow> py_error + int" where
  "py_int s =
     (case those (map to_ascii s) of
        None \<Rightarrow> Inl ValueError
      | Some a \<Rightarrow>
          if max_str_digits < length (filter is_digit a) then Inl ValueError
          else (case parse_signed (strip a) of
                  None \<Rightarrow> Inl ValueError
                | Some n \<Rightarrow> Inr n))"

section \<open>Models and their instances (database.py)\<close>

text \<open>
  A model class derived from \<^verbatim>\<open>CustomBase\<close>. The repository holds no model: the class
  is its user's, so what the handlers need of it is taken with it.
  \<^item> \<open>columns\<close>: the names of its table's columns, in table order;
  \<^item> \<open>class_attrs\<close>: the names of the other attributes of the class that the
    constructor accepts as keywords and sets on the instance;
  \<^item> \<open>coerce\<close>: the types of the columns, each given by what the table makes of a value
    bound to the column: the value that is read back once it is stored, or the exception
    that the statement raises.
\<close>

record model =
  columns :: "string list"
  class_attrs :: "string list"
  coerce :: "string \<Rightarrow> json \<Rightarrow> py_error + json"

type_synonym row = "(string \<times> json) list"

text \<open>Reading a row at a column; a column it does not hold reads as \<^verbatim>\<open>None\<close>.\<close>

definition value_at :: "row \<Rightarrow> string \<Rightarrow> json" where
  "value_at r c = (case map_of r c of None \<Rightarrow> JNull | Some v \<Rightarrow> v)"

text \<open>
  An instance: the primary key under which the session knows it (\<open>None\<close> while it is
  transient), its attribute dictionary, and the values it had when it was last read from
  the table, against which the session finds the attributes that changed.
\<close>

record entity =
  ident :: "int option"
  attrs :: row
  loaded :: row

text \<open>Reading a column attribute that was never set gives \<^verbatim>\<open>None\<close>.\<close>

definition getattr :: "entity \<Rightarrow> string \<Rightarrow> json" where
  "getattr e c = value_at (attrs e) c"

definition setattr :: "entity \<Rightarrow> string \<Rightarrow> json \<Rightarrow> entity" where
  "setattr e k v = e\<lparr>attrs := AList.update k v (attrs e)\<rparr>"

text \<open>
  \<^verbatim>\<open>CustomBase.as_dict\<close>:
  \<^verbatim>\<open>{c.name: getattr(self, c.name) for c in self.__table__.columns}\<close>.
\<close>

definition as_dict :: "model \<Rightarrow> entity \<Rightarrow> row" where
  "as_dict m e = map (\<lambda>c. (c, getattr e c)) (columns m)"

definition hasattr_cls :: "model \<Rightarrow> string \<Rightarrow> bool" where
  "hasattr_cls m k = (k \<in> set (columns m) \<or> k \<in> set (class_attrs m))"

text \<open>
  The constructor that the declarative base gives every model, called as
  \<^verbatim>\<open>self.model(**data)\<close>: each keyword must name an attribute of the class, or the
  constructor raises \<^verbatim>\<open>TypeError\<close>; the others are set in turn.
\<close>

fun init_kwargs :: "model \<Rightarrow> entity \<Rightarrow> (string \<times> json) list \<Rightarrow> py_error + entity" where
  "init_kwargs m e [] = Inr e"
| "init_kwargs m e ((k, v) # kvs) =
     (if \<not> hasattr_cls m k then Inl TypeError else init_kwargs m (setattr e k v) kvs)"

section \<open>The session\<close>

text \<open>
  The session of one request over the table of one model, on SQLite, the engine of the
  repository's tests. \<open>storage\<close> is the committed table. \<open>objects\<close> are the instances
  alive in the request; the handlers hold references to them (positions in the list),
  since the session changes them in place. \<open>pending\<close> are the references given to
  \<^verbatim>\<open>add\<close>, \<open>removed\<close> those given to \<^verbatim>\<open>delete\<close>. \<open>calls\<close> records every call on the
  session, as the mocks of the repository's tests do. A handler queries once in a
  request, so every query result is a new instance.
\<close>

datatype call = CQuery | CAdd | CCommit | CRefresh | CDelete | CClose

record session =
  storage :: "row list"
  objects :: "entity list"
  pending :: "nat list"
  removed :: "nat list"
  is_open :: bool
  calls :: "call list"

text \<open>\<^verbatim>\<open>SessionLocal()\<close>: a new session on the database.\<close>

definition SessionLocal :: "row list \<Rightarrow> session" where
  "SessionLocal db =
     \<lparr>storage = db, objects = [], pending = [], removed = [], is_open = True, calls = []\<rparr>"

definition close :: "session \<Rightarrow> session" where
  "close db = db\<lparr>is_open := False, calls := calls db @ [CClose]\<rparr>"

definition pk_of :: "row \<Rightarrow> int option" where
  "pk_of r = (case map_of r ''pk'' of Some (JInt n) \<Rightarrow> Some n | _ \<Rightarrow> None)"

text \<open>A row read from the table becomes a persistent instance.\<close>

definition load :: "row \<Rightarrow> entity" where
  "load r = \<lparr>ident = pk_of r, attrs = r, loaded = r\<rparr>"

text \<open>The integers that the driver binds and the table stores are signed 64-bit.\<close>

definition in_int64 :: "int \<Rightarrow> bool" where
  "in_int64 n = (- 9223372036854775808 \<le> n \<and> n \<le> 9223372036854775807)"

text \<open>\<^verbatim>\<open>db.query(model).all()\<close>: the session is configured without autoflush, so a
  query reads the committed table.\<close>

definition query_all :: "session \<Rightarrow> nat list \<times> session" where
  "query_all db =
     (let n = length (objects db); k = length (storage db)
      in ([n..<n + k],
          db\<lparr>objects := objects db @ map load (storage db), calls := calls db @ [CQuery]\<rparr>))"

text \<open>
  \<^verbatim>\<open>db.query(model).filter(model.pk == item_id).first()\<close>. The driver cannot bind an
  integer outside the signed 64-bit range: the lookup raises \<^verbatim>\<open>OverflowError\<close>.
\<close>

definition query_first :: "session \<Rightarrow> int \<Rightarrow> (py_error + nat option) \<times> session" where
  "query_first db item_id =
     (if \<not> in_int64 item_id then (Inl OverflowError, db\<lparr>calls := calls db @ [CQuery]\<rparr>)
      else
        (case find (\<lambda>r. pk_of r = Some item_id) (storage db) of
           None \<Rightarrow> (Inr None, db\<lparr>calls := calls db @ [CQuery]\<rparr>)
         | Some r \<Rightarrow>
             (Inr (Some (length (objects db))),
              db\<lparr>objects := objects db @ [load r], calls := calls db @ [CQuery]\<rparr>)))"

definition add :: "session \<Rightarrow> nat \<Rightarrow> session" where
  "add db item = db\<lparr>pending := pending db @ [item], calls := calls db @ [CAdd]\<rparr>"

definition delete :: "session \<Rightarrow> nat \<Rightarrow> session" where
  "delete db item = db\<lparr>removed := removed db @ [item], calls := calls db @ [CDelete]\<rparr>"

definition pk_exists :: "int \<Rightarrow> row list \<Rightarrow> bool" where
  "pk_exists n rows = (find (\<lambda>r. pk_of r = Some n) rows \<noteq> None)"

text \<open>
  The key the table generates for a row inserted without one: 1 in a table with no key,
  else one more than the largest key in use.
\<close>

definition next_pk :: "row list \<Rightarrow> int" where
  "next_pk rows =
     (case List.map_filter pk_of rows of
        [] \<Rightarrow> 1
      | k # ks \<Rightarrow> fold max ks k + 1)"

text \<open>
  The values a statement binds for the columns \<open>cs\<close> of an instance, each as its column
  coerces it; the first exception in column order leaves the statement.
\<close>

fun coerce_columns :: "model \<Rightarrow> entity \<Rightarrow> string list \<Rightarrow> py_error + row" where
  "coerce_columns m e [] = Inr []"
| "coerce_columns m e (c # cs) =
     (case coerce m c (getattr e c) of
        Inl exn \<Rightarrow> Inl exn
      | Inr v \<Rightarrow>
          (case coerce_columns m e cs of
             Inl exn \<Rightarrow> Inl exn
           | Inr r \<Rightarrow> Inr ((c, v) # r)))"

text \<open>
  The key of a row to insert: none (the table generates it) when the key column is
  \<^verbatim>\<open>NULL\<close>, else an integer of 64 bits; any other value is a datatype mismatch.
\<close>

definition insert_key :: "row \<Rightarrow> py_error + int option" where
  "insert_key r =
     (case value_at r ''pk'' of
        JNull \<Rightarrow> Inr None
      | JInt n \<Rightarrow> if in_int64 n then Inr (Some n) else Inl OverflowError
      | _ \<Rightarrow> Inl IntegrityError)"

definition set_key :: "int \<Rightarrow> row \<Rightarrow> row" where
  "set_key n r = map (\<lambda>(c, v). if c = ''pk'' then (c, JInt n) else (c, v)) r"

text \<open>The columns whose attribute differs from the value last read: an \<^verbatim>\<open>UPDATE\<close>
  sets these and no other. (Python compares with \<^verbatim>\<open>==\<close>, under which \<^verbatim>\<open>True\<close> is
  1 and \<^verbatim>\<open>False\<close> is 0; the driver binds them as these integers.)\<close>

definition changed_columns :: "model \<Rightarrow> entity \<Rightarrow> string list" where
  "changed_columns m e = filter (\<lambda>c. getattr e c \<noteq> value_at (loaded e) c) (columns m)"

text \<open>The key of a row after an \<^verbatim>\<open>UPDATE\<close> with the values \<open>upd\<close>: the old key \<open>i\<close>
  unless the key column is set, and then to an integer of 64 bits only.\<close>

definition update_key :: "int \<Rightarrow> row \<Rightarrow> py_error + int" where
  "update_key i upd =
     (case map_of upd ''pk'' of
        None \<Rightarrow> Inr i
      | Some (JInt n) \<Rightarrow> if in_int64 n then Inr n else Inl OverflowError
      | Some _ \<Rightarrow> Inl IntegrityError)"

text \<open>
  Flushing one instance at commit. A removed persistent instance deletes its row. A
  persistent instance updates, in the row of its key, the columns that changed, and may
  move the row to a new key that is free. A pending transient instance is inserted,
  under its own key when it has one that is free, under a generated key when it has
  none; then it is persistent. The primary key constraint raises \<^verbatim>\<open>IntegrityError\<close>.
  When the largest key is the largest integer of 64 bits, SQLite tries random keys and
  fails when it finds none free; the model takes that outcome.
\<close>

definition flush_object :: "model \<Rightarrow> nat \<Rightarrow> session \<Rightarrow> py_error + session" where
  "flush_object m r db =
     (let e = objects db ! r in
      if r \<in> set (removed db) then
        (case ident e of
           None \<Rightarrow> Inr db
         | Some i \<Rightarrow> Inr (db\<lparr>storage := filter (\<lambda>row. pk_of row \<noteq> Some i) (storage db)\<rparr>))
      else
        (case ident e of
           Some i \<Rightarrow>
             (case coerce_columns m e (changed_columns m e) of
                Inl exn \<Rightarrow> Inl exn
              | Inr upd \<Rightarrow>
                  (case update_key i upd of
                     Inl exn \<Rightarrow> Inl exn
                   | Inr n \<Rightarrow>
                       if n \<noteq> i \<and> pk_exists n (storage db) then Inl IntegrityError
                       else Inr (db\<lparr>storage :=
                                       map (\<lambda>row. if pk_of row = Some i
                                                   then AList.merge row upd else row)
                                         (storage db),
                                    objects := (objects db)[r := e\<lparr>ident := Some n\<rparr>]\<rparr>)))
         | None \<Rightarrow>
             if r \<in> set (pending db) then
               (case coerce_columns m e (columns m) of
                  Inl exn \<Rightarrow> Inl exn
                | Inr new \<Rightarrow>
                    (case insert_key new of
                       Inl exn \<Rightarrow> Inl exn
                     | Inr (Some n) \<Rightarrow>
                         if pk_exists n (storage db) then Inl IntegrityError
                         else Inr (db\<lparr>storage := storage db @ [new],
                                      objects := (objects db)[r := e\<lparr>ident := Some n\<rparr>]\<rparr>)
                     | Inr None \<Rightarrow>
                         (let n = next_pk (storage db) in
                          if \<not> in_int64 n then Inl OperationalError
                          else Inr (db\<lparr>storage := storage db @ [set_key n new],
                                       objects := (objects db)[r := e\<lparr>ident := Some n\<rparr>]\<rparr>))))
             else Inr db))"

fun flush :: "model \<Rightarrow> nat list \<Rightarrow> session \<Rightarrow> py_error + session" where
  "flush m [] db = Inr db"
| "flush m (r # rs) db =
     (case flush_object m r db of Inl e \<Rightarrow> Inl e | Inr db' \<Rightarrow> flush m rs db')"

text \<open>\<^verbatim>\<open>db.commit()\<close>: flush every instance; a failure leaves the table as it was.\<close>

definition commit :: "model \<Rightarrow> session \<Rightarrow> (py_error + unit) \<times> session" where
  "commit m db =
     (case flush m [0..<length (objects db)] db of
        Inl e \<Rightarrow> (Inl e, db\<lparr>calls := calls db @ [CCommit]\<rparr>)
      | Inr db' \<Rightarrow> (Inr (), db'\<lparr>pending := [], removed := [], calls := calls db @ [CCommit]\<rparr>))"

text \<open>
  \<^verbatim>\<open>db.refresh(item)\<close>: the column attributes of a persistent instance are read again
  from its row; attributes that are not columns stay as they are.
\<close>

definition refresh :: "session \<Rightarrow> nat \<Rightarrow> (py_error + unit) \<times> session" where
  "refresh db item =
     (let e = objects db ! item; db1 = db\<lparr>calls := calls db @ [CRefresh]\<rparr> in
      case ident e of
        None \<Rightarrow> (Inl InvalidRequestError, db1)
      | Some i \<Rightarrow>
          (case find (\<lambda>r. pk_of r = Some i) (storage db) of
             None \<Rightarrow> (Inl InvalidRequestError, db1)
           | Some r \<Rightarrow>
               (Inr (),
                db1\<lparr>objects :=
                      (objects db)[item := e\<lparr>attrs := AList.merge (attrs e) r, loaded := r\<rparr>]\<rparr>)))"

section \<open>The handlers (handlers.py)\<close>

type_synonym 'a result = "(py_error + 'a) \<times> session"

text \<open>A value handed to \<^verbatim>\<open>AbstractHandler.json_response\<close>: an instance or a list.\<close>

datatype pyval = Instance nat | PyList "json list"

text \<open>\<^verbatim>\<open>AbstractHandler.__call__\<close>: the session is closed in the \<^verbatim>\<open>finally\<close> clause,
  whether \<^verbatim>\<open>handle\<close> returned or raised.\<close>

definition AbstractHandler_call ::
  "(session \<Rightarrow> request \<Rightarrow> response result) \<Rightarrow> row list \<Rightarrow> request \<Rightarrow> response result" where
  "AbstractHandler_call handle sdb request =
     (let db = SessionLocal sdb in
      case handle db request of
        (Inr resp, db') \<Rightarrow> (Inr resp, close db')
      | (Inl exn, db') \<Rightarrow> (Inl exn, close db'))"

definition get_request_json :: "request \<Rightarrow> py_error + json" where
  "get_request_json request = json_result request"

definition get_item_by_id :: "session \<Rightarrow> int \<Rightarrow> (py_error + nat option) \<times> session" where
  "get_item_by_id db item_id = query_first db item_id"

definition add_and_commit_item :: "model \<Rightarrow> session \<Rightarrow> nat \<Rightarrow> nat result" where
  "add_and_commit_item m db item =
     (let db1 = add db item in
      case commit m db1 of
        (Inl exn, db2) \<Rightarrow> (Inl exn, db2)
      | (Inr u, db2) \<Rightarrow>
          (case refresh db2 item of
             (Inl exn, db3) \<Rightarrow> (Inl exn, db3)
           | (Inr u', db3) \<Rightarrow> (Inr item, db3)))"

definition delete_and_commit_item :: "model \<Rightarrow> session \<Rightarrow> nat \<Rightarrow> unit result" where
  "delete_and_commit_item m db item = commit m (delete db item)"

text \<open>
  \<^verbatim>\<open>json_response\<close> calls \<^verbatim>\<open>item.as_dict()\<close>. A list has no such attribute. On an
  instance whose own attribute \<^verbatim>\<open>as_dict\<close> hides the method, the call is of a value
  that is not callable; on one whose own attribute \<^verbatim>\<open>__table__\<close> hides the table,
  \<^verbatim>\<open>as_dict\<close> finds no \<^verbatim>\<open>columns\<close> on it.
\<close>

definition json_response :: "model \<Rightarrow> session \<Rightarrow> pyval \<Rightarrow> nat \<Rightarrow> py_error + response" where
  "json_response m db item st =
     (case item of
        PyList xs \<Rightarrow> Inl AttributeError
      | Instance r \<Rightarrow>
          (case map_of (attrs (objects db ! r)) ''as_dict'' of
             Some v \<Rightarrow> Inl TypeError
           | None \<Rightarrow>
               (case map_of (attrs (objects db ! r)) ''__table__'' of
                  Some v \<Rightarrow> Inl AttributeError
                | None \<Rightarrow> Inr (web_json_response (JObj (as_dict m (objects db ! r))) st))))"

definition json_error_response :: "string \<Rightarrow> nat \<Rightarrow> response" where
  "json_error_response error_message st =
     web_json_response (JObj [(''error'', JStr error_message)]) st"

text \<open>\<^verbatim>\<open>self.model(**data)\<close>: only a dict can be unpacked into keywords.\<close>

definition model_call :: "model \<Rightarrow> session \<Rightarrow> json \<Rightarrow> nat result" where
  "model_call m db data =
     (case data of
        JObj kvs \<Rightarrow>
          (case init_kwargs m \<lparr>ident = None, attrs = [], loaded = []\<rparr> kvs of
             Inl exn \<Rightarrow> (Inl exn, db)
           | Inr e \<Rightarrow> (Inr (length (objects db)), db\<lparr>objects := objects db @ [e]\<rparr>))
      | _ \<Rightarrow> (Inl TypeError, db))"

definition CreateHandler_handle :: "model \<Rightarrow> session \<Rightarrow> request \<Rightarrow> response result" where
  "CreateHandler_handle m db request =
     (case get_request_json request of
        Inl exn \<Rightarrow> (Inl exn, db)
      | Inr data \<Rightarrow>
          (case model_call m db data of
             (Inl exn, db1) \<Rightarrow> (Inl exn, db1)
           | (Inr item, db1) \<Rightarrow>
               (case add_and_commit_item m db1 item of
                  (Inl exn, db2) \<Rightarrow> (Inl exn, db2)
                | (Inr item', db2) \<Rightarrow> (json_response m db2 (Instance item') 201, db2))))"

text \<open>The list comprehension \<^verbatim>\<open>[item.as_dict() for item in items]\<close>.\<close>

definition as_dict_all :: "model \<Rightarrow> session \<Rightarrow> nat list \<Rightarrow> json list" where
  "as_dict_all m db items = map (\<lambda>r. JObj (as_dict m (objects db ! r))) items"

definition ReadHandler_handle :: "model \<Rightarrow> session \<Rightarrow> request \<Rightarrow> response result" where
  "ReadHandler_handle m db request =
     (case map_of (match_info request) ''id'' of
        None \<Rightarrow>
          (let (items, db1) = query_all db;
               response = as_dict_all m db1 items
           in (json_response m db1 (PyList response) 200, db1))
      | Some s \<Rightarrow>
          (case py_int s of
             Inl exn \<Rightarrow> (Inl exn, db)
           | Inr item_id \<Rightarrow>
               (case get_item_by_id db item_id of
                  (Inl exn, db1) \<Rightarrow> (Inl exn, db1)
                | (Inr (Some item), db1) \<Rightarrow> (json_response m db1 (Instance item) 200, db1)
                | (Inr None, db1) \<Rightarrow> (Inr (json_error_response ''Item not found'' 404), db1))))"

text \<open>The loop \<^verbatim>\<open>for key, value in data.items(): setattr(item, key, value)\<close>.\<close>

fun setattr_items :: "entity \<Rightarrow> (string \<times> json) list \<Rightarrow> entity" where
  "setattr_items e [] = e"
| "setattr_items e ((key, val) # kvs) = setattr_items (setattr e key val) kvs"

definition UpdateHandler_handle :: "model \<Rightarrow> session \<Rightarrow> request \<Rightarrow> response result" where
  "UpdateHandler_handle m db request =
     (case map_of (match_info request) ''id'' of
        None \<Rightarrow> (Inl KeyError, db)
      | Some s \<Rightarrow>
          (case py_int s of
             Inl exn \<Rightarrow> (Inl exn, db)
           | Inr item_id \<Rightarrow>
               (case get_item_by_id db item_id of
                  (Inl exn, db1) \<Rightarrow> (Inl exn, db1)
                | (Inr None, db1) \<Rightarrow> (Inr (json_error_response ''Item not found'' 404), db1)
                | (Inr (Some item), db1) \<Rightarrow>
                    (case get_request_json request of
                       Inl exn \<Rightarrow> (Inl exn, db1)
                     | Inr (JObj kvs) \<Rightarrow>
                         (let db2 = db1\<lparr>objects :=
                                      (objects db1)[item := setattr_items (objects db1 ! item) kvs]\<rparr>
                          in case add_and_commit_item m db2 item of
                               (Inl exn, db3) \<Rightarrow> (Inl exn, db3)
                             | (Inr item', db3) \<Rightarrow>
                                 (json_response m db3 (Instance item') 200, db3))
                     | Inr _ \<Rightarrow> (Inl AttributeError, db1)))))"

definition PatchHandler_handle :: "model \<Rightarrow> session \<Rightarrow> request \<Rightarrow> response result" where
  "PatchHandler_handle m db request =
     (case map_of (match_info request) ''id'' of
        None \<Rightarrow> (Inl KeyError, db)
      | Some s \<Rightarrow>
          (case py_int s of
             Inl exn \<Rightarrow> (Inl exn, db)
           | Inr item_id \<Rightarrow>
               (case get_item_by_id db item_id of
                  (Inl exn, db1) \<Rightarrow> (Inl exn, db1)
                | (Inr None, db1) \<Rightarrow> (Inr (json_error_response ''Item not found'' 404), db1)
                | (Inr (Some item), db1) \<Rightarrow>
                    (case get_request_json request of
                       Inl exn \<Rightarrow> (Inl exn, db1)
                     | Inr (JObj kvs) \<Rightarrow>
                         (let db2 = db1\<lparr>objects :=
                                      (objects db1)[item := setattr_items (objects db1 ! item) kvs]\<rparr>
                          in case add_and_commit_item m db2 item of
                               (Inl exn, db3) \<Rightarrow> (Inl exn, db3)
                             | (Inr item', db3) \<Rightarrow>
                                 (json_response m db3 (Instance item') 200, db3))
                     | Inr _ \<Rightarrow> (Inl AttributeError, db1)))))"

definition DeleteHandler_handle :: "model \<Rightarrow> session \<Rightarrow> request \<Rightarrow> response result" where
  "DeleteHandler_handle m db request =
     (case map_of (match_info request) ''id'' of
        None \<Rightarrow> (Inl KeyError, db)
      | Some s \<Rightarrow>
          (case py_int s of
             Inl exn \<Rightarrow> (Inl exn, db)
           | Inr item_id \<Rightarrow>
               (case get_item_by_id db item_id of
                  (Inl exn, db1) \<Rightarrow> (Inl exn, db1)
                | (Inr None, db1) \<Rightarrow> (Inr (json_error_response ''Item not found'' 404), db1)
                | (Inr (Some item), db1) \<Rightarrow>
                    (case delete_and_commit_item m db1 item of
                       (Inl exn, db2) \<Rightarrow> (Inl exn, db2)
                     | (Inr u, db2) \<Rightarrow> (Inr (web_Response 204), db2)))))"

definition RetrieveAllHandler_handle :: "model \<Rightarrow> session \<Rightarrow> request \<Rightarrow> response result" where
  "RetrieveAllHandler_handle m db request =
     (let (items, db1) = query_all db;
          response = as_dict_all m db1 items
      in (Inr (web_json_response (JList response) 200), db1))"

definition OptionsHandler_handle :: "model \<Rightarrow> session \<Rightarrow> request \<Rightarrow> response result" where
  "OptionsHandler_handle m db request =
     (Inr (web_json_response
             (JObj [(''allowed_methods'',
                     JList [JStr ''GET'', JStr ''POST'', JStr ''PUT'', JStr ''DELETE'',
                            JStr ''PATCH'', JStr ''OPTIONS'', JStr ''HEAD'']),
                    (''allowed_headers'', JList [JStr ''Content-Type'', JStr ''Authorization'']),
                    (''max_age'', JInt 3600)])
             200),
      db)"

section \<open>A model and a table to evaluate on\<close>

text \<open>
  The model of the specification's scenario: a table \<^verbatim>\<open>thing\<close> on SQLite with the
  integer primary key \<^verbatim>\<open>pk\<close> and the \<^verbatim>\<open>String\<close> column \<^verbatim>\<open>name\<close>, holding one row.

  What the driver binds: \<^verbatim>\<open>None\<close> as \<^verbatim>\<open>NULL\<close>, a bool as the integer 0 or 1, an
  integer of 64 bits as it is, a string as text; a longer integer raises
  \<^verbatim>\<open>OverflowError\<close>, a list or a dict \<^verbatim>\<open>ProgrammingError\<close>.
\<close>

definition sqlite_bind :: "json \<Rightarrow> py_error + json" where
  "sqlite_bind v =
     (case v of
        JNull \<Rightarrow> Inr JNull
      | JBool b \<Rightarrow> Inr (JInt (if b then 1 else 0))
      | JInt n \<Rightarrow> if in_int64 n then Inr (JInt n) else Inl OverflowError
      | JStr s \<Rightarrow> Inr (JStr s)
      | JList xs \<Rightarrow> Inl ProgrammingError
      | JObj kvs \<Rightarrow> Inl ProgrammingError)"

text \<open>The decimal numeral of an integer.\<close>

function digits_of :: "nat \<Rightarrow> string" where
  "digits_of n =
     (if n < 10 then [''0123456789'' ! n]
      else digits_of (n div 10) @ [''0123456789'' ! (n mod 10)])"
  by pat_completeness auto
termination
  by (relation "measure id") auto

definition show_int :: "int \<Rightarrow> string" where
  "show_int i = (if i < 0 then CHR ''-'' # digits_of (nat (- i)) else digits_of (nat i))"

text \<open>A column of text affinity stores an integer as the text of its numeral.\<close>

definition text_affinity :: "json \<Rightarrow> json" where
  "text_affinity v = (case v of JInt n \<Rightarrow> JStr (show_int n) | _ \<Rightarrow> v)"

text \<open>
  The integer primary key stores a text that is an integer numeral of 64 bits
  (whitespace around it, one sign, decimal digits) as that integer, and refuses any
  other text as a datatype mismatch. SQLite also takes a text that is a floating-point
  numeral of an integral value, which it reads through floating point; such a text
  counts as a mismatch here.
\<close>

definition sqlite_integer_text :: "string \<Rightarrow> int option" where
  "sqlite_integer_text t =
     (let a = strip (codes t);
          neg = (a \<noteq> [] \<and> hd a = 45);
          ds = (if a \<noteq> [] \<and> (hd a = 45 \<or> hd a = 43) then tl a else a);
          n = fold (\<lambda>c acc. 10 * acc + digit_val c) ds 0;
          v = (if neg then - n else n)
      in if ds \<noteq> [] \<and> list_all is_digit ds \<and> in_int64 v then Some v else None)"

definition integer_key :: "json \<Rightarrow> py_error + json" where
  "integer_key v =
     (case v of
        JStr t \<Rightarrow>
          (case sqlite_integer_text t of
             None \<Rightarrow> Inl IntegrityError
           | Some n \<Rightarrow> Inr (JInt n))
      | _ \<Rightarrow> Inr v)"

definition sqlite_coerce :: "string \<Rightarrow> json \<Rightarrow> py_error + json" where
  "sqlite_coerce c v =
     (case sqlite_bind v of
        Inl exn \<Rightarrow> Inl exn
      | Inr b \<Rightarrow> if c = ''pk'' then integer_key b else Inr (text_affinity b))"

definition thing :: model where
  "thing =
     \<lparr>columns = [''pk'', ''name''],
      class_attrs = [''as_dict'', ''metadata'', ''registry'', ''__tablename__'', ''__table__'',
                     ''__mapper__'', ''__init__'', ''__doc__'', ''__module__''],
      coerce = sqlite_coerce\<rparr>"

definition thing_rows :: "row list" where
  "thing_rows = [[(''pk'', JInt 1), (''name'', JStr ''x'')]]"

definition not_found :: response where
  "not_found = \<lparr>status = 404, body = Some (JObj [(''error'', JStr ''Item not found'')])\<rparr>"

definition post_a :: request where
  "post_a = \<lparr>match_info = [], json_result = Inr (JObj [(''name'', JStr ''a'')])\<rparr>"

definition get_2 :: request where
  "get_2 = \<lparr>match_info = [(''id'', codes ''2'')], json_result = Inr (JObj [])\<rparr>"

definition get_abc :: request where
  "get_abc = \<lparr>match_info = [(''id'', codes ''abc'')], json_result = Inr (JObj [])\<rparr>"

definition get_big :: request where
  "get_big = \<lparr>match_info = [(''id'', codes ''9223372036854775808'')],
              json_result = Inr (JObj [])\<rparr>"

definition put_b :: request where
  "put_b = \<lparr>match_info = [(''id'', codes ''1'')],
            json_result = Inr (JObj [(''name'', JStr ''b'')])\<rparr>"

definition put_5 :: request where
  "put_5 = \<lparr>match_info = [(''id'', codes ''1'')],
            json_result = Inr (JObj [(''name'', JInt 5)])\<rparr>"

section \<open>Evaluation lemmas\<close>

lemma py_int_abc: "py_int (codes ''abc'') = Inl ValueError"
  by code_simp

lemma py_int_1: "py_int (codes ''1'') = Inr 1"
  by code_simp

lemma py_int_2: "py_int (codes ''2'') = Inr 2"
  by code_simp

lemma py_int_big: "py_int (codes ''9223372036854775808'') = Inr 9223372036854775808"
  by code_simp

lemma py_int_separator: "py_int [0x1F, 50] = Inl ValueError"
  by code_simp

lemma py_int_no_break_space: "py_int [0xA0, 49] = Inr 1"
  by code_simp

lemma py_int_arabic_indic: "py_int [0x661, 0x662] = Inr 12"
  by (simp add: py_int_def to_ascii_def unicode_space_def unicode_decimal_def decimal_zeros_def
      max_str_digits_def is_digit_def is_space_def strip_def parse_signed_def digit_val_def)

lemma py_int_error: "py_int s = Inl exn \<Longrightarrow> exn = ValueError"
  by (auto simp: py_int_def split: option.splits if_splits)

lemma query_first_miss:
  assumes "in_int64 n" and "\<not> pk_exists n (storage db)"
  shows "get_item_by_id db n = (Inr None, db\<lparr>calls := calls db @ [CQuery]\<rparr>)"
  using assms by (simp add: get_item_by_id_def query_first_def pk_exists_def)

lemma query_first_overflow:
  assumes "\<not> in_int64 n"
  shows "get_item_by_id db n = (Inl OverflowError, db\<lparr>calls := calls db @ [CQuery]\<rparr>)"
  using assms by (simp add: get_item_by_id_def query_first_def)

lemma show_int_5: "show_int 5 = ''5''"
  by (simp add: show_int_def)

lemmas handler_defs =
  CreateHandler_handle_def UpdateHandler_handle_def get_request_json_def model_call_def
  get_item_by_id_def query_first_def load_def hasattr_cls_def SessionLocal_def
  add_and_commit_item_def add_def commit_def flush_object_def refresh_def json_response_def
  web_json_response_def as_dict_def getattr_def value_at_def setattr_def next_pk_def pk_of_def
  pk_exists_def in_int64_def insert_key_def update_key_def set_key_def changed_columns_def
  AList.merge_def Let_def

lemmas thing_defs =
  thing_def thing_rows_def sqlite_coerce_def sqlite_bind_def integer_key_def text_affinity_def

lemma create_post_a:
  "CreateHandler_handle thing (SessionLocal thing_rows) post_a =
     (Inr \<lparr>status = 201, body = Some (JObj [(''pk'', JInt 2), (''name'', JStr ''a'')])\<rparr>,
      \<lparr>storage = [[(''pk'', JInt 1), (''name'', JStr ''x'')],
                  [(''pk'', JInt 2), (''name'', JStr ''a'')]],
       objects = [\<lparr>ident = Some 2, attrs = [(''name'', JStr ''a''), (''pk'', JInt 2)],
                   loaded = [(''pk'', JInt 2), (''name'', JStr ''a'')]\<rparr>],
       pending = [], removed = [], is_open = True, calls = [CAdd, CCommit, CRefresh]\<rparr>)"
  by (simp add: handler_defs thing_defs post_a_def)

lemma update_put_b:
  "UpdateHandler_handle thing (SessionLocal thing_rows) put_b =
     (Inr \<lparr>status = 200, body = Some (JObj [(''pk'', JInt 1), (''name'', JStr ''b'')])\<rparr>,
      \<lparr>storage = [[(''pk'', JInt 1), (''name'', JStr ''b'')]],
       objects = [\<lparr>ident = Some 1, attrs = [(''pk'', JInt 1), (''name'', JStr ''b'')],
                   loaded = [(''pk'', JInt 1), (''name'', JStr ''b'')]\<rparr>],
       pending = [], removed = [], is_open = True,
       calls = [CQuery, CAdd, CCommit, CRefresh]\<rparr>)"
  by (simp add: handler_defs thing_defs put_b_def py_int_1)

lemma update_put_5:
  "UpdateHandler_handle thing (SessionLocal thing_rows) put_5 =
     (Inr \<lparr>status = 200, body = Some (JObj [(''pk'', JInt 1), (''name'', JStr ''5'')])\<rparr>,
      \<lparr>storage = [[(''pk'', JInt 1), (''name'', JStr ''5'')]],
       objects = [\<lparr>ident = Some 1, attrs = [(''pk'', JInt 1), (''name'', JStr ''5'')],
                   loaded = [(''pk'', JInt 1), (''name'', JStr ''5'')]\<rparr>],
       pending = [], removed = [], is_open = True,
       calls = [CQuery, CAdd, CCommit, CRefresh]\<rparr>)"
  by (simp add: handler_defs thing_defs put_5_def py_int_1 show_int_5)

section \<open>Keys, rows and instances\<close>

lemma init_kwargs_ident:
  "init_kwargs m e kvs = Inr e' \<Longrightarrow> ident e' = ident e \<and> loaded e' = loaded e"
  by (induction m e kvs rule: init_kwargs.induct) (auto simp: setattr_def split: if_splits)

lemma fold_max_ge: "(k::int) \<le> fold max ks k"
  by (induction ks arbitrary: k) (auto intro: order_trans [OF max.cobounded2])

lemma fold_max_bound: "x \<in> set ks \<Longrightarrow> (x::int) \<le> fold max ks k"
proof (induction ks arbitrary: k)
  case Nil
  then show ?case by simp
next
  case (Cons y ks)
  show ?case
  proof (cases "x = y")
    case True
    then show ?thesis using fold_max_ge [of "max y k" ks] by simp
  next
    case False
    then show ?thesis using Cons by simp
  qed
qed

lemma next_pk_fresh: "\<not> pk_exists (next_pk rows) rows"
proof
  assume "pk_exists (next_pk rows) rows"
  then obtain r where "r \<in> set rows" and "pk_of r = Some (next_pk rows)"
    by (auto simp: pk_exists_def find_None_iff)
  then have mem: "next_pk rows \<in> set (List.map_filter pk_of rows)"
    by (force simp: List.map_filter_def)
  show False
  proof (cases "List.map_filter pk_of rows")
    case Nil
    with mem show False by simp
  next
    case (Cons k ks)
    with mem have "next_pk rows = k \<or> next_pk rows \<in> set ks" by simp
    then have "next_pk rows \<le> fold max ks k"
      using fold_max_ge [of k ks] fold_max_bound [of "next_pk rows" ks k] by auto
    then show False by (simp add: next_pk_def Cons)
  qed
qed

lemma find_pk: "find (\<lambda>r. pk_of r = Some n) rows = Some old \<Longrightarrow> pk_of old = Some n"
  by (auto simp: find_Some_iff)

lemma find_append_fresh:
  "\<not> pk_exists n rows \<Longrightarrow> pk_of r = Some n \<Longrightarrow>
   find (\<lambda>r. pk_of r = Some n) (rows @ [r]) = Some r"
  by (induction rows) (auto simp: pk_exists_def split: if_splits)

lemma coerce_columns_Inr:
  "coerce_columns m e cs = Inr r \<Longrightarrow>
   r = map (\<lambda>c. (c, value_at r c)) cs \<and>
   (\<forall>c \<in> set cs. coerce m c (getattr e c) = Inr (value_at r c))"
proof (induction cs arbitrary: r)
  case Nil
  then show ?case by simp
next
  case (Cons c cs)
  from Cons.prems obtain v r' where v: "coerce m c (getattr e c) = Inr v"
    and r': "coerce_columns m e cs = Inr r'" and r: "r = (c, v) # r'"
    by (auto split: sum.splits)
  note IH = Cons.IH [OF r']
  have same: "value_at r c' = value_at r' c'" if "c' \<in> set cs" for c'
  proof (cases "c' = c")
    case True
    with IH that v show ?thesis by (auto simp: r value_at_def)
  next
    case False
    then show ?thesis by (simp add: r value_at_def)
  qed
  have "map (\<lambda>c. (c, value_at r' c)) cs = map (\<lambda>c. (c, value_at r c)) cs"
    using same by simp
  with IH have "r = map (\<lambda>c. (c, value_at r c)) (c # cs)"
    by (simp add: r value_at_def)
  moreover have "\<forall>c' \<in> set (c # cs). coerce m c' (getattr e c') = Inr (value_at r c')"
    using IH v same by (auto simp: r value_at_def)
  ultimately show ?case by blast
qed

lemma map_of_shaped:
  "r = map (\<lambda>c. (c, value_at r c)) cs \<Longrightarrow> c \<in> set cs \<Longrightarrow> map_of r c = Some (value_at r c)"
proof -
  assume shape: "r = map (\<lambda>c. (c, value_at r c)) cs" and c: "c \<in> set cs"
  have "map_of (map (\<lambda>c. (c, value_at r c)) cs) c = Some (value_at r c)"
    using c by (simp add: map_of_map_restrict)
  with shape show ?thesis by simp
qed

lemma map_of_shaped_None:
  "r = map (\<lambda>c. (c, value_at r c)) cs \<Longrightarrow> c \<notin> set cs \<Longrightarrow> map_of r c = None"
proof -
  assume shape: "r = map (\<lambda>c. (c, value_at r c)) cs" and c: "c \<notin> set cs"
  have "map_of (map (\<lambda>c. (c, value_at r c)) cs) c = None"
    using c by (simp add: map_of_map_restrict)
  with shape show ?thesis by simp
qed

lemma set_key_shaped:
  assumes "r = map (\<lambda>c. (c, value_at r c)) cs" and "''pk'' \<in> set cs"
  shows "set_key n r = map (\<lambda>c. (c, value_at (set_key n r) c)) cs"
    and "pk_of (set_key n r) = Some n"
proof -
  have r: "set_key n r = map (\<lambda>c. (c, if c = ''pk'' then JInt n else value_at r c)) cs"
    by (subst assms(1)) (simp add: set_key_def comp_def)
  have v: "value_at (set_key n r) c = (if c = ''pk'' then JInt n else value_at r c)"
    if "c \<in> set cs" for c
    using that by (simp add: r value_at_def map_of_map_restrict)
  show "set_key n r = map (\<lambda>c. (c, value_at (set_key n r) c)) cs"
    using v by (subst r) simp
  show "pk_of (set_key n r) = Some n"
    using assms(2) by (simp add: r pk_of_def map_of_map_restrict)
qed

lemma as_dict_shaped:
  assumes "r = map (\<lambda>c. (c, value_at r c)) (columns m)"
    and "\<And>c. c \<in> set (columns m) \<Longrightarrow> getattr e c = value_at r c"
  shows "as_dict m e = r"
proof -
  have "as_dict m e = map (\<lambda>c. (c, value_at r c)) (columns m)"
    by (simp add: as_dict_def assms(2))
  with assms(1) show ?thesis by simp
qed

section \<open>The create path\<close>

lemma insert_key_Some:
  "insert_key r = Inr (Some n) \<Longrightarrow> pk_of r = Some n \<and> in_int64 n"
  by (auto simp: insert_key_def value_at_def pk_of_def
      split: option.splits json.splits if_splits)

lemma commit_insert:
  assumes "ident e = None" and pk: "''pk'' \<in> set (columns m)"
    and committed: "commit m \<lparr>storage = sdb, objects = [e], pending = [0], removed = [],
                         is_open = True, calls = cs\<rparr> = (Inr u, db2)"
  shows "\<exists>new n. new = map (\<lambda>c. (c, value_at new c)) (columns m) \<and>
           pk_of new = Some n \<and> in_int64 n \<and> \<not> pk_exists n sdb \<and>
           db2 = \<lparr>storage = sdb @ [new], objects = [e\<lparr>ident := Some n\<rparr>],
                  pending = [], removed = [], is_open = True, calls = cs @ [CCommit]\<rparr>"
proof -
  let ?S = "\<lparr>storage = sdb, objects = [e], pending = [0], removed = [],
             is_open = True, calls = cs\<rparr>"
  have commit: "commit m ?S =
      (case flush_object m 0 ?S of
         Inl exn \<Rightarrow> (Inl exn, ?S\<lparr>calls := cs @ [CCommit]\<rparr>)
       | Inr db' \<Rightarrow> (Inr (), db'\<lparr>pending := [], removed := [], calls := cs @ [CCommit]\<rparr>))"
    by (simp add: commit_def split: sum.splits)
  have flush: "flush_object m 0 ?S =
      (case coerce_columns m e (columns m) of
         Inl exn \<Rightarrow> Inl exn
       | Inr new \<Rightarrow>
           (case insert_key new of
              Inl exn \<Rightarrow> Inl exn
            | Inr (Some n) \<Rightarrow>
                if pk_exists n sdb then Inl IntegrityError
                else Inr (?S\<lparr>storage := sdb @ [new], objects := [e\<lparr>ident := Some n\<rparr>]\<rparr>)
            | Inr None \<Rightarrow>
                if \<not> in_int64 (next_pk sdb) then Inl OperationalError
                else Inr (?S\<lparr>storage := sdb @ [set_key (next_pk sdb) new],
                             objects := [e\<lparr>ident := Some (next_pk sdb)\<rparr>]\<rparr>)))"
    using assms(1)
    by (simp add: flush_object_def Let_def split: sum.splits option.splits)
  from committed commit obtain db1 where db1: "flush_object m 0 ?S = Inr db1"
    and db2: "db2 = db1\<lparr>pending := [], removed := [], calls := cs @ [CCommit]\<rparr>"
    by (cases "flush_object m 0 ?S") auto
  from db1 flush obtain r where r: "coerce_columns m e (columns m) = Inr r"
    by (cases "coerce_columns m e (columns m)") auto
  from coerce_columns_Inr [OF r] have shape: "r = map (\<lambda>c. (c, value_at r c)) (columns m)"
    by blast
  from db1 flush r obtain k where k: "insert_key r = Inr k"
    by (cases "insert_key r") auto
  show ?thesis
  proof (cases k)
    case None
    let ?n = "next_pk sdb"
    from db1 flush r k None have range: "in_int64 ?n"
      and "db1 = ?S\<lparr>storage := sdb @ [set_key ?n r], objects := [e\<lparr>ident := Some ?n\<rparr>]\<rparr>"
      by (auto split: if_splits)
    then have "db2 = \<lparr>storage = sdb @ [set_key ?n r], objects = [e\<lparr>ident := Some ?n\<rparr>],
                  pending = [], removed = [], is_open = True, calls = cs @ [CCommit]\<rparr>"
      by (simp add: db2)
    with set_key_shaped [OF shape pk, of ?n] range next_pk_fresh [of sdb]
    show ?thesis by blast
  next
    case (Some n)
    from db1 flush r k Some have fresh: "\<not> pk_exists n sdb"
      and "db1 = ?S\<lparr>storage := sdb @ [r], objects := [e\<lparr>ident := Some n\<rparr>]\<rparr>"
      by (auto split: if_splits)
    then have "db2 = \<lparr>storage = sdb @ [r], objects = [e\<lparr>ident := Some n\<rparr>],
                  pending = [], removed = [], is_open = True, calls = cs @ [CCommit]\<rparr>"
      by (simp add: db2)
    with insert_key_Some [OF k [unfolded Some]] shape fresh
    show ?thesis by blast
  qed
qed

lemma create_success:
  assumes pk: "''pk'' \<in> set (columns m)"
    and created: "CreateHandler_handle m (SessionLocal sdb) request = (Inr resp, db')"
  shows "\<exists>new n. new = map (\<lambda>c. (c, value_at new c)) (columns m) \<and>
           pk_of new = Some n \<and> in_int64 n \<and> \<not> pk_exists n sdb \<and>
           map_of new ''as_dict'' = None \<and> map_of new ''__table__'' = None \<and>
           resp = \<lparr>status = 201, body = Some (JObj new)\<rparr> \<and>
           storage db' = sdb @ [new] \<and>
           calls db' = [CAdd, CCommit, CRefresh]"
proof -
  from created obtain kvs where body: "json_result request = Inr (JObj kvs)"
    by (auto simp: CreateHandler_handle_def get_request_json_def model_call_def
        split: sum.splits json.splits)
  from created body obtain e
    where init: "init_kwargs m \<lparr>ident = None, attrs = [], loaded = []\<rparr> kvs = Inr e"
    by (auto simp: CreateHandler_handle_def get_request_json_def model_call_def
        split: sum.splits)
  let ?db1 = "\<lparr>storage = sdb, objects = [e], pending = [], removed = [], is_open = True,
               calls = []\<rparr>"
  obtain r db2 where added0: "add_and_commit_item m ?db1 0 = (r, db2)"
    by (cases "add_and_commit_item m ?db1 0")
  have unfolded: "CreateHandler_handle m (SessionLocal sdb) request =
      (case r of Inl exn \<Rightarrow> (Inl exn, db2)
       | Inr item' \<Rightarrow> (json_response m db2 (Instance item') 201, db2))"
    using body init added0
    by (simp add: CreateHandler_handle_def get_request_json_def model_call_def SessionLocal_def)
  from created unfolded obtain item where r: "r = Inr item"
    by (cases r) simp_all
  from created unfolded r have resp: "json_response m db2 (Instance item) 201 = Inr resp"
    and db': "db' = db2"
    by auto
  note added = added0 [unfolded r]
  let ?dba = "\<lparr>storage = sdb, objects = [e], pending = [0], removed = [], is_open = True,
               calls = [CAdd]\<rparr>"
  have add: "add ?db1 0 = ?dba" by (simp add: add_def)
  obtain c dbc where commit0: "commit m ?dba = (c, dbc)"
    by (cases "commit m ?dba")
  from added commit0 obtain u where c: "c = Inr u"
    by (cases c) (simp_all add: add_and_commit_item_def add Let_def)
  note commit = commit0 [unfolded c]
  have "ident e = None" using init_kwargs_ident [OF init] by simp
  from commit_insert [OF this pk commit] obtain new n
    where shape: "new = map (\<lambda>c. (c, value_at new c)) (columns m)"
      and key: "pk_of new = Some n" and range: "in_int64 n" and fresh: "\<not> pk_exists n sdb"
      and dbc: "dbc = \<lparr>storage = sdb @ [new], objects = [e\<lparr>ident := Some n\<rparr>],
                  pending = [], removed = [], is_open = True, calls = [CAdd, CCommit]\<rparr>"
    by auto
  have found: "find (\<lambda>r. pk_of r = Some n) (sdb @ [new]) = Some new"
    by (rule find_append_fresh [OF fresh key])
  let ?e2 = "e\<lparr>ident := Some n, attrs := AList.merge (attrs e) new, loaded := new\<rparr>"
  let ?dbr = "\<lparr>storage = sdb @ [new], objects = [?e2],
                  pending = [], removed = [], is_open = True, calls = [CAdd, CCommit, CRefresh]\<rparr>"
  have refresh: "refresh dbc 0 = (Inr (), ?dbr)"
    by (simp add: refresh_def dbc found Let_def)
  from added have item: "item = 0" and db2: "db2 = ?dbr"
    by (simp_all add: add_and_commit_item_def add Let_def commit refresh)
  have "getattr ?e2 c = value_at new c" if "c \<in> set (columns m)" for c
  proof -
    from map_of_shaped [OF shape that] obtain v where "map_of new c = Some v"
      by blast
    then show ?thesis
      by (simp add: getattr_def value_at_def AList.merge_conv' map_add_def)
  qed
  then have same: "as_dict m ?e2 = new"
    by (rule as_dict_shaped [OF shape])
  from resp have shadow: "map_of (AList.merge (attrs e) new) ''as_dict'' = None"
    and table: "map_of (AList.merge (attrs e) new) ''__table__'' = None"
    by (auto simp: json_response_def item db2 split: option.splits)
  then have no_col: "map_of new ''as_dict'' = None" "map_of new ''__table__'' = None"
    by (simp_all add: AList.merge_conv')
  from resp shadow table have "resp = \<lparr>status = 201, body = Some (JObj new)\<rparr>"
    by (simp add: json_response_def item db2 web_json_response_def same)
  then show ?thesis
    using shape key range fresh no_col db' db2 by auto
qed

lemma read_found:
  assumes "map_of (match_info request) ''id'' = Some s" and "py_int s = Inr n"
    and "in_int64 n"
    and "find (\<lambda>r. pk_of r = Some n) sdb = Some r"
    and "r = map (\<lambda>c. (c, value_at r c)) (columns m)"
    and "map_of r ''as_dict'' = None" and "map_of r ''__table__'' = None"
  shows "ReadHandler_handle m (SessionLocal sdb) request =
           (Inr \<lparr>status = 200, body = Some (JObj r)\<rparr>,
            \<lparr>storage = sdb, objects = [load r], pending = [], removed = [],
             is_open = True, calls = [CQuery]\<rparr>)"
proof -
  have "as_dict m (load r) = r"
    by (rule as_dict_shaped [OF assms(5)]) (simp add: getattr_def load_def)
  then show ?thesis
    using assms(1,2,3,4,6,7)
    by (simp add: ReadHandler_handle_def get_item_by_id_def query_first_def SessionLocal_def
        json_response_def web_json_response_def load_def)
qed

section \<open>The update path\<close>

lemma setattr_items_ident:
  "ident (setattr_items e kvs) = ident e \<and> loaded (setattr_items e kvs) = loaded e"
  by (induction e kvs rule: setattr_items.induct) (simp_all add: setattr_def)

lemma setattr_items_absent:
  "k \<notin> fst ` set kvs \<Longrightarrow> map_of (attrs (setattr_items e kvs)) k = map_of (attrs e) k"
  by (induction e kvs rule: setattr_items.induct) (auto simp: setattr_def AList.update_conv')

lemma setattr_items_present:
  "distinct (map fst kvs) \<Longrightarrow> (k, v) \<in> set kvs \<Longrightarrow>
   map_of (attrs (setattr_items e kvs)) k = Some v"
proof (induction e kvs rule: setattr_items.induct)
  case (1 e)
  then show ?case by simp
next
  case (2 e key val kvs)
  show ?case
  proof (cases "(k, v) \<in> set kvs")
    case True
    with 2 show ?thesis by simp
  next
    case False
    with "2.prems" have here: "key = k" "val = v" and "k \<notin> fst ` set kvs"
      by auto
    then show ?thesis
      by (simp add: setattr_items_absent setattr_def AList.update_conv')
  qed
qed

lemma find_replaced:
  assumes "find (\<lambda>r. pk_of r = Some n) rows = Some old"
    and "\<And>row. pk_of row = Some n \<Longrightarrow> pk_of (f row) = Some n'"
    and "n' = n \<or> \<not> pk_exists n' rows"
  shows "find (\<lambda>r. pk_of r = Some n')
           (map (\<lambda>row. if pk_of row = Some n then f row else row) rows) = Some (f old)"
  using assms(1,3)
proof (induction rows)
  case Nil
  then show ?case by simp
next
  case (Cons x rows)
  show ?case
  proof (cases "pk_of x = Some n")
    case True
    then have "x = old" using Cons.prems(1) by simp
    with True assms(2) show ?thesis by simp
  next
    case False
    then have tail: "find (\<lambda>r. pk_of r = Some n) rows = Some old"
      using Cons.prems(1) by simp
    have other: "pk_of x \<noteq> Some n'" and rest: "n' = n \<or> \<not> pk_exists n' rows"
      using Cons.prems(2) False by (auto simp: pk_exists_def split: if_splits)
    from Cons.IH [OF tail rest] False other show ?thesis by simp
  qed
qed

lemma update_key_merge:
  "update_key i upd = Inr n \<Longrightarrow> pk_of row = Some i \<Longrightarrow> pk_of (AList.merge row upd) = Some n"
  by (auto simp: update_key_def pk_of_def AList.merge_conv' map_add_def
      split: option.splits json.splits if_splits)

lemma merge_value:
  assumes "upd = map (\<lambda>c. (c, value_at upd c)) cs"
  shows "value_at (AList.merge row upd) c = (if c \<in> set cs then value_at upd c else value_at row c)"
proof (cases "c \<in> set cs")
  case True
  from map_of_shaped [OF assms True] obtain v where "map_of upd c = Some v"
    by blast
  with True show ?thesis
    by (simp add: value_at_def AList.merge_conv' map_add_def)
next
  case False
  from map_of_shaped_None [OF assms False] False show ?thesis
    by (simp add: value_at_def AList.merge_conv' map_add_def)
qed

lemma commit_update:
  assumes "ident e = Some i"
    and committed: "commit m \<lparr>storage = sdb, objects = [e], pending = [0], removed = [],
                              is_open = True, calls = cs\<rparr> = (Inr u, db2)"
  shows "\<exists>upd n. coerce_columns m e (changed_columns m e) = Inr upd \<and>
           update_key i upd = Inr n \<and> (n = i \<or> \<not> pk_exists n sdb) \<and>
           db2 = \<lparr>storage = map (\<lambda>row. if pk_of row = Some i
                                       then AList.merge row upd else row) sdb,
                  objects = [e\<lparr>ident := Some n\<rparr>],
                  pending = [], removed = [], is_open = True, calls = cs @ [CCommit]\<rparr>"
proof -
  let ?S = "\<lparr>storage = sdb, objects = [e], pending = [0], removed = [],
             is_open = True, calls = cs\<rparr>"
  have commit: "commit m ?S =
      (case flush_object m 0 ?S of
         Inl exn \<Rightarrow> (Inl exn, ?S\<lparr>calls := cs @ [CCommit]\<rparr>)
       | Inr db' \<Rightarrow> (Inr (), db'\<lparr>pending := [], removed := [], calls := cs @ [CCommit]\<rparr>))"
    by (simp add: commit_def split: sum.splits)
  have flush: "flush_object m 0 ?S =
      (case coerce_columns m e (changed_columns m e) of
         Inl exn \<Rightarrow> Inl exn
       | Inr upd \<Rightarrow>
           (case update_key i upd of
              Inl exn \<Rightarrow> Inl exn
            | Inr n \<Rightarrow>
                if n \<noteq> i \<and> pk_exists n sdb then Inl IntegrityError
                else Inr (?S\<lparr>storage := map (\<lambda>row. if pk_of row = Some i
                                                      then AList.merge row upd else row) sdb,
                             objects := [e\<lparr>ident := Some n\<rparr>]\<rparr>)))"
    using assms(1)
    by (simp add: flush_object_def Let_def split: sum.splits)
  from committed commit obtain db1 where db1: "flush_object m 0 ?S = Inr db1"
    and db2: "db2 = db1\<lparr>pending := [], removed := [], calls := cs @ [CCommit]\<rparr>"
    by (cases "flush_object m 0 ?S") auto
  from db1 flush obtain upd where upd: "coerce_columns m e (changed_columns m e) = Inr upd"
    by (cases "coerce_columns m e (changed_columns m e)") auto
  from db1 flush upd obtain n where n: "update_key i upd = Inr n"
    by (cases "update_key i upd") auto
  from db1 flush upd n have free: "n = i \<or> \<not> pk_exists n sdb"
    and "db1 = ?S\<lparr>storage := map (\<lambda>row. if pk_of row = Some i
                                          then AList.merge row upd else row) sdb,
                  objects := [e\<lparr>ident := Some n\<rparr>]\<rparr>"
    by (auto split: if_splits)
  then have "db2 = \<lparr>storage = map (\<lambda>row. if pk_of row = Some i
                                       then AList.merge row upd else row) sdb,
                  objects = [e\<lparr>ident := Some n\<rparr>],
                  pending = [], removed = [], is_open = True, calls = cs @ [CCommit]\<rparr>"
    by (simp add: db2)
  with upd n free show ?thesis by blast
qed

lemma update_success:
  assumes ok: "UpdateHandler_handle m (SessionLocal sdb) request = (Inr resp, db')"
    and success: "status resp = 200"
  shows "\<exists>s n old kvs e upd n'.
           map_of (match_info request) ''id'' = Some s \<and> py_int s = Inr n \<and>
           find (\<lambda>r. pk_of r = Some n) sdb = Some old \<and>
           json_result request = Inr (JObj kvs) \<and>
           e = setattr_items (load old) kvs \<and>
           coerce_columns m e (changed_columns m e) = Inr upd \<and>
           pk_of (AList.merge old upd) = Some n' \<and>
           find (\<lambda>r. pk_of r = Some n')
             (map (\<lambda>row. if pk_of row = Some n then AList.merge row upd else row) sdb)
             = Some (AList.merge old upd) \<and>
           resp = \<lparr>status = 200, body = Some (JObj (as_dict m (load (AList.merge old upd))))\<rparr> \<and>
           db' = \<lparr>storage = map (\<lambda>row. if pk_of row = Some n
                                       then AList.merge row upd else row) sdb,
                  objects = [e\<lparr>ident := Some n',
                               attrs := AList.merge (attrs e) (AList.merge old upd),
                               loaded := AList.merge old upd\<rparr>],
                  pending = [], removed = [], is_open = True,
                  calls = [CQuery, CAdd, CCommit, CRefresh]\<rparr>"
proof -
  from ok obtain s where id: "map_of (match_info request) ''id'' = Some s"
    by (cases "map_of (match_info request) ''id''") (simp_all add: UpdateHandler_handle_def)
  from ok id obtain n where n: "py_int s = Inr n"
    by (cases "py_int s") (simp_all add: UpdateHandler_handle_def)
  have range: "in_int64 n"
  proof (rule ccontr)
    assume "\<not> in_int64 n"
    from query_first_overflow [OF this] ok id n show False
      by (simp add: UpdateHandler_handle_def)
  qed
  have "find (\<lambda>r. pk_of r = Some n) sdb \<noteq> None"
  proof
    assume "find (\<lambda>r. pk_of r = Some n) sdb = None"
    then have "\<not> pk_exists n (storage (SessionLocal sdb))"
      by (simp add: pk_exists_def SessionLocal_def)
    from query_first_miss [OF range this] ok id n
    have "resp = json_error_response ''Item not found'' 404"
      by (simp add: UpdateHandler_handle_def)
    with success show False
      by (simp add: json_error_response_def web_json_response_def)
  qed
  then obtain old where old: "find (\<lambda>r. pk_of r = Some n) sdb = Some old"
    by auto
  let ?db1 = "\<lparr>storage = sdb, objects = [load old], pending = [], removed = [], is_open = True,
               calls = [CQuery]\<rparr>"
  have got: "get_item_by_id (SessionLocal sdb) n = (Inr (Some 0), ?db1)"
    using old range by (simp add: get_item_by_id_def query_first_def SessionLocal_def)
  from ok id n got obtain j where j: "json_result request = Inr j"
    by (cases "json_result request") (simp_all add: UpdateHandler_handle_def get_request_json_def)
  from ok id n got j obtain kvs where kvs: "j = JObj kvs"
    by (cases j) (simp_all add: UpdateHandler_handle_def get_request_json_def)
  let ?e = "setattr_items (load old) kvs"
  let ?db2 = "\<lparr>storage = sdb, objects = [?e], pending = [], removed = [], is_open = True,
               calls = [CQuery]\<rparr>"
  obtain r db3 where added0: "add_and_commit_item m ?db2 0 = (r, db3)"
    by (cases "add_and_commit_item m ?db2 0")
  have unfolded: "UpdateHandler_handle m (SessionLocal sdb) request =
      (case r of Inl exn \<Rightarrow> (Inl exn, db3)
       | Inr item' \<Rightarrow> (json_response m db3 (Instance item') 200, db3))"
    using id n got j kvs added0
    by (simp add: UpdateHandler_handle_def get_request_json_def)
  from ok unfolded obtain item where r: "r = Inr item"
    by (cases r) simp_all
  from ok unfolded r have resp: "json_response m db3 (Instance item) 200 = Inr resp"
    and db': "db' = db3"
    by auto
  note added = added0 [unfolded r]
  let ?dba = "\<lparr>storage = sdb, objects = [?e], pending = [0], removed = [], is_open = True,
               calls = [CQuery, CAdd]\<rparr>"
  have add: "add ?db2 0 = ?dba" by (simp add: add_def)
  obtain c dbc where commit0: "commit m ?dba = (c, dbc)"
    by (cases "commit m ?dba")
  from added commit0 obtain u where c: "c = Inr u"
    by (cases c) (simp_all add: add_and_commit_item_def add Let_def)
  note commit = commit0 [unfolded c]
  have ident: "ident ?e = Some n" and loaded: "loaded ?e = old"
    using find_pk [OF old] by (simp_all add: setattr_items_ident load_def)
  from commit_update [OF ident commit] obtain upd n'
    where upd: "coerce_columns m ?e (changed_columns m ?e) = Inr upd"
      and n': "update_key n upd = Inr n'" and free: "n' = n \<or> \<not> pk_exists n' sdb"
      and dbc: "dbc = \<lparr>storage = map (\<lambda>row. if pk_of row = Some n
                                           then AList.merge row upd else row) sdb,
                  objects = [?e\<lparr>ident := Some n'\<rparr>],
                  pending = [], removed = [], is_open = True,
                  calls = [CQuery, CAdd, CCommit]\<rparr>"
    by auto
  let ?new = "AList.merge old upd"
  have key: "pk_of ?new = Some n'"
    by (rule update_key_merge [OF n' find_pk [OF old]])
  have found: "find (\<lambda>r. pk_of r = Some n')
                 (map (\<lambda>row. if pk_of row = Some n then AList.merge row upd else row) sdb)
               = Some ?new"
    by (rule find_replaced [OF old update_key_merge [OF n'] free])
  let ?e2 = "?e\<lparr>ident := Some n', attrs := AList.merge (attrs ?e) ?new, loaded := ?new\<rparr>"
  let ?dbr = "\<lparr>storage = map (\<lambda>row. if pk_of row = Some n
                                   then AList.merge row upd else row) sdb,
               objects = [?e2], pending = [], removed = [], is_open = True,
               calls = [CQuery, CAdd, CCommit, CRefresh]\<rparr>"
  have refresh: "refresh dbc 0 = (Inr (), ?dbr)"
    by (simp add: refresh_def dbc found Let_def)
  from added have item: "item = 0" and db3: "db3 = ?dbr"
    by (simp_all add: add_and_commit_item_def add Let_def commit refresh)
  from coerce_columns_Inr [OF upd]
  have shape: "upd = map (\<lambda>c. (c, value_at upd c)) (changed_columns m ?e)"
    by blast
  have "getattr ?e2 c = getattr (load ?new) c" if col: "c \<in> set (columns m)" for c
  proof (cases "map_of ?new c")
    case (Some v)
    then show ?thesis
      by (simp add: getattr_def value_at_def load_def AList.merge_conv' map_add_def)
  next
    case None
    then have "map_of old c = None" and none: "map_of upd c = None"
      by (simp_all add: AList.merge_conv' map_add_def split: option.splits)
    have "c \<notin> set (changed_columns m ?e)"
    proof
      assume "c \<in> set (changed_columns m ?e)"
      from map_of_shaped [OF shape this] none show False by simp
    qed
    with col have "getattr ?e c = value_at old c"
      by (simp add: changed_columns_def loaded)
    with None \<open>map_of old c = None\<close> show ?thesis
      by (simp add: getattr_def value_at_def load_def AList.merge_conv' map_add_def)
  qed
  then have same: "as_dict m ?e2 = as_dict m (load ?new)"
    by (simp add: as_dict_def)
  from resp have "resp = \<lparr>status = 200, body = Some (JObj (as_dict m (load ?new)))\<rparr>"
    by (auto simp: json_response_def item db3 web_json_response_def same split: option.splits)
  then show ?thesis
    using id n old j kvs upd key found db' db3 by blast
qed

section \<open>Where the handlers raise\<close>

lemma init_kwargs_unknown:
  "(k, v) \<in> set kvs \<Longrightarrow> \<not> hasattr_cls m k \<Longrightarrow> init_kwargs m e kvs = Inl TypeError"
  by (induction m e kvs rule: init_kwargs.induct) auto

lemma create_unknown_field_always_raises:
  assumes "json_result request = Inr (JObj kvs)" and "(k, v) \<in> set kvs"
    and "\<not> hasattr_cls m k"
  shows "CreateHandler_handle m db request = (Inl TypeError, db)"
  using assms(1) init_kwargs_unknown [OF assms(2,3)]
  by (simp add: CreateHandler_handle_def get_request_json_def model_call_def)

lemma read_collection_always_raises:
  "map_of (match_info request) ''id'' = None \<Longrightarrow>
   fst (ReadHandler_handle m db request) = Inl AttributeError"
  by (simp add: ReadHandler_handle_def json_response_def split: prod.splits)

section \<open>The session's lifetime\<close>

text \<open>
  C1. A request dispatched through \<^verbatim>\<open>AbstractHandler.__call__\<close> runs its operation on
  a session that was just opened (open, with no call made on it yet), and whatever the
  operation does, return a response or raise, the caller gets that outcome and the
  session is closed: \<^verbatim>\<open>close\<close> is the last call made on it and it is not open after.
\<close>

theorem call_closes_session:
  "is_open (SessionLocal sdb) \<and> calls (SessionLocal sdb) = [] \<and>
   fst (AbstractHandler_call handle sdb request) = fst (handle (SessionLocal sdb) request) \<and>
   \<not> is_open (snd (AbstractHandler_call handle sdb request)) \<and>
   calls (snd (AbstractHandler_call handle sdb request)) =
     calls (snd (handle (SessionLocal sdb) request)) @ [CClose]"
  by (cases "handle (SessionLocal sdb) request")
     (auto simp: AbstractHandler_call_def SessionLocal_def close_def split: sum.splits)

section \<open>PUT and PATCH\<close>

text \<open>
  C7. On the same model, session and request, \<^verbatim>\<open>UpdateHandler\<close> and \<^verbatim>\<open>PatchHandler\<close>
  give the same outcome: the same response or exception, and the same session and table
  after.
\<close>

theorem update_patch_identical:
  "UpdateHandler_handle m db request = PatchHandler_handle m db request"
  unfolding UpdateHandler_handle_def PatchHandler_handle_def by (rule refl)

section \<open>OPTIONS\<close>

text \<open>
  C9. For every model, session and request, \<^verbatim>\<open>OptionsHandler\<close> answers 200 with the
  fixed descriptor of methods, headers and max age, and the session it returns is the
  session it was given: no call was made on it and the table is the same.
\<close>

theorem options_fixed_descriptor:
  "OptionsHandler_handle m db request =
     (Inr \<lparr>status = 200,
           body = Some (JObj [(''allowed_methods'',
                               JList [JStr ''GET'', JStr ''POST'', JStr ''PUT'', JStr ''DELETE'',
                                      JStr ''PATCH'', JStr ''OPTIONS'', JStr ''HEAD'']),
                              (''allowed_headers'',
                               JList [JStr ''Content-Type'', JStr ''Authorization'']),
                              (''max_age'', JInt 3600)])\<rparr>,
      db)"
  by (simp add: OptionsHandler_handle_def web_json_response_def)

section \<open>Misses and malformed identifiers on the item routes\<close>

text \<open>
  C3, as amended. When the route's id reads as an integer of the signed 64-bit range
  that is the key of no row of the table, \<^verbatim>\<open>ReadHandler\<close>, \<^verbatim>\<open>UpdateHandler\<close>,
  \<^verbatim>\<open>PatchHandler\<close> and \<^verbatim>\<open>DeleteHandler\<close> each answer 404 with the body
  \<^verbatim>\<open>{"error": "Item not found"}\<close>, and the session after is the session before with
  one query recorded: the table, the instances, the pending and the removed instances
  are the same, and no add, delete, commit or refresh was called.
\<close>

theorem item_not_found:
  assumes "map_of (match_info request) ''id'' = Some s"
    and "py_int s = Inr n"
    and "in_int64 n"
    and "\<not> pk_exists n (storage db)"
  shows "ReadHandler_handle m db request = (Inr not_found, db\<lparr>calls := calls db @ [CQuery]\<rparr>) \<and>
         UpdateHandler_handle m db request = (Inr not_found, db\<lparr>calls := calls db @ [CQuery]\<rparr>) \<and>
         PatchHandler_handle m db request = (Inr not_found, db\<lparr>calls := calls db @ [CQuery]\<rparr>) \<and>
         DeleteHandler_handle m db request = (Inr not_found, db\<lparr>calls := calls db @ [CQuery]\<rparr>)"
proof -
  note miss = query_first_miss [OF assms(3,4)]
  have resp: "json_error_response ''Item not found'' 404 = not_found"
    by (simp add: json_error_response_def web_json_response_def not_found_def)
  have "ReadHandler_handle m db request = (Inr not_found, db\<lparr>calls := calls db @ [CQuery]\<rparr>)"
    using assms(1,2) by (simp add: ReadHandler_handle_def miss resp)
  moreover
  have "UpdateHandler_handle m db request = (Inr not_found, db\<lparr>calls := calls db @ [CQuery]\<rparr>)"
    using assms(1,2) by (simp add: UpdateHandler_handle_def miss resp)
  moreover
  have "PatchHandler_handle m db request = (Inr not_found, db\<lparr>calls := calls db @ [CQuery]\<rparr>)"
    using assms(1,2) by (simp add: PatchHandler_handle_def miss resp)
  moreover
  have "DeleteHandler_handle m db request = (Inr not_found, db\<lparr>calls := calls db @ [CQuery]\<rparr>)"
    using assms(1,2) by (simp add: DeleteHandler_handle_def miss resp)
  ultimately show ?thesis by simp
qed

theorem item_not_found_witness:
  "map_of (match_info get_2) ''id'' = Some (codes ''2'') \<and>
   py_int (codes ''2'') = Inr 2 \<and>
   in_int64 2 \<and>
   \<not> pk_exists 2 (storage (SessionLocal thing_rows)) \<and>
   ReadHandler_handle thing (SessionLocal thing_rows) get_2
     = (Inr not_found, (SessionLocal thing_rows)\<lparr>calls := [CQuery]\<rparr>) \<and>
   DeleteHandler_handle thing (SessionLocal thing_rows) get_2
     = (Inr not_found, (SessionLocal thing_rows)\<lparr>calls := [CQuery]\<rparr>)"
proof -
  have h1: "map_of (match_info get_2) ''id'' = Some (codes ''2'')"
    by (simp add: get_2_def)
  have h3: "in_int64 2"
    by (simp add: in_int64_def)
  have h4: "\<not> pk_exists 2 (storage (SessionLocal thing_rows))"
    by (simp add: SessionLocal_def thing_rows_def pk_exists_def pk_of_def)
  have c: "calls (SessionLocal thing_rows) = []"
    by (simp add: SessionLocal_def)
  show ?thesis
    using item_not_found [OF h1 py_int_2 h3 h4, of thing] h1 h3 h4 py_int_2 by (simp add: c)
qed

text \<open>
  C3 as it was stated fails. The id \<^verbatim>\<open>9223372036854775808\<close> reads as an integer that
  is the key of no row, and none of the four handlers answers 404: the lookup raises
  \<^verbatim>\<open>OverflowError\<close>, since the driver binds integers of 64 bits.
\<close>

theorem item_not_found_counterexample:
  "map_of (match_info get_big) ''id'' = Some (codes ''9223372036854775808'') \<and>
   py_int (codes ''9223372036854775808'') = Inr 9223372036854775808 \<and>
   \<not> pk_exists 9223372036854775808 (storage (SessionLocal thing_rows)) \<and>
   fst (ReadHandler_handle thing (SessionLocal thing_rows) get_big) = Inl OverflowError \<and>
   fst (UpdateHandler_handle thing (SessionLocal thing_rows) get_big) = Inl OverflowError \<and>
   fst (PatchHandler_handle thing (SessionLocal thing_rows) get_big) = Inl OverflowError \<and>
   fst (DeleteHandler_handle thing (SessionLocal thing_rows) get_big) = Inl OverflowError"
proof -
  have id: "map_of (match_info get_big) ''id'' = Some (codes ''9223372036854775808'')"
    by (simp add: get_big_def)
  have absent: "\<not> pk_exists 9223372036854775808 (storage (SessionLocal thing_rows))"
    by (simp add: SessionLocal_def thing_rows_def pk_exists_def pk_of_def)
  have "\<not> in_int64 9223372036854775808"
    by (simp add: in_int64_def)
  note overflow = query_first_overflow [OF this, of "SessionLocal thing_rows"]
  show ?thesis
    using id absent py_int_big
    by (simp add: ReadHandler_handle_def UpdateHandler_handle_def PatchHandler_handle_def
        DeleteHandler_handle_def overflow)
qed

text \<open>
  C10. When the route's id is a string on which \<^verbatim>\<open>int()\<close> raises, each of the four
  item handlers lets that \<^verbatim>\<open>ValueError\<close> out: no response is returned, neither the 404
  nor any other, and the session is as it was, not even queried.
\<close>

theorem malformed_id_raises:
  assumes "map_of (match_info request) ''id'' = Some s"
    and "py_int s = Inl exn"
  shows "exn = ValueError \<and>
         ReadHandler_handle m db request = (Inl exn, db) \<and>
         UpdateHandler_handle m db request = (Inl exn, db) \<and>
         PatchHandler_handle m db request = (Inl exn, db) \<and>
         DeleteHandler_handle m db request = (Inl exn, db)"
  using assms py_int_error [OF assms(2)]
  by (simp add: ReadHandler_handle_def UpdateHandler_handle_def PatchHandler_handle_def
      DeleteHandler_handle_def)

theorem malformed_id_raises_witness:
  "map_of (match_info get_abc) ''id'' = Some (codes ''abc'') \<and>
   py_int (codes ''abc'') = Inl ValueError \<and>
   ReadHandler_handle thing (SessionLocal thing_rows) get_abc
     = (Inl ValueError, SessionLocal thing_rows) \<and>
   UpdateHandler_handle thing (SessionLocal thing_rows) get_abc
     = (Inl ValueError, SessionLocal thing_rows) \<and>
   PatchHandler_handle thing (SessionLocal thing_rows) get_abc
     = (Inl ValueError, SessionLocal thing_rows) \<and>
   DeleteHandler_handle thing (SessionLocal thing_rows) get_abc
     = (Inl ValueError, SessionLocal thing_rows)"
proof -
  have h1: "map_of (match_info get_abc) ''id'' = Some (codes ''abc'')"
    by (simp add: get_abc_def)
  show ?thesis
    using malformed_id_raises [OF h1 py_int_abc, of thing "SessionLocal thing_rows"] h1 py_int_abc
    by simp
qed

section \<open>Creating with an unknown field\<close>

text \<open>
  C2, evaluated on the code. A POST whose body is \<^verbatim>\<open>{"invalid_field": "Invalid Value"}\<close>,
  on a model with no such attribute: \<^verbatim>\<open>CreateHandler.handle\<close> does not answer 400. The
  model's constructor raises \<^verbatim>\<open>TypeError\<close> and nothing catches it. The session is as
  it was: no add, commit or refresh was called.
\<close>

theorem create_unknown_field_raises:
  "CreateHandler_handle thing (SessionLocal thing_rows)
       \<lparr>match_info = [], json_result = Inr (JObj [(''invalid_field'', JStr ''Invalid Value'')])\<rparr>
     = (Inl TypeError, SessionLocal thing_rows)"
  by (simp add: CreateHandler_handle_def get_request_json_def model_call_def hasattr_cls_def
      thing_def)

section \<open>The collection branch of the read handler\<close>

text \<open>
  C5, evaluated on the code. A GET that reaches \<^verbatim>\<open>ReadHandler\<close> with no id in the
  match info does not answer 200 with the list: the handler passes the list to
  \<^verbatim>\<open>self.json_response\<close>, which calls \<^verbatim>\<open>as_dict\<close> on it, and \<^verbatim>\<open>AttributeError\<close> is
  raised, on the table of one row and on the empty table alike.
\<close>

theorem read_collection_raises:
  "fst (ReadHandler_handle thing (SessionLocal thing_rows)
          \<lparr>match_info = [], json_result = Inr (JObj [])\<rparr>) = Inl AttributeError \<and>
   fst (ReadHandler_handle thing (SessionLocal [])
          \<lparr>match_info = [], json_result = Inr (JObj [])\<rparr>) = Inl AttributeError"
  by (simp add: ReadHandler_handle_def query_all_def json_response_def Let_def)

text \<open>
  C6, evaluated on the code. On the table of one row \<^verbatim>\<open>RetrieveAllHandler\<close> answers
  200 with the list of the serialised rows, while the collection branch of
  \<^verbatim>\<open>ReadHandler\<close> raises \<^verbatim>\<open>AttributeError\<close>: the two outcomes differ.
\<close>

theorem retrieve_all_differs_from_read:
  "fst (RetrieveAllHandler_handle thing (SessionLocal thing_rows)
          \<lparr>match_info = [], json_result = Inr (JObj [])\<rparr>)
     = Inr \<lparr>status = 200,
            body = Some (JList [JObj [(''pk'', JInt 1), (''name'', JStr ''x'')]])\<rparr> \<and>
   fst (ReadHandler_handle thing (SessionLocal thing_rows)
          \<lparr>match_info = [], json_result = Inr (JObj [])\<rparr>)
     \<noteq> fst (RetrieveAllHandler_handle thing (SessionLocal thing_rows)
          \<lparr>match_info = [], json_result = Inr (JObj [])\<rparr>)"
  by (simp add: ReadHandler_handle_def RetrieveAllHandler_handle_def query_all_def
      json_response_def web_json_response_def as_dict_all_def as_dict_def getattr_def
      value_at_def load_def SessionLocal_def thing_rows_def thing_def Let_def)

section \<open>Reading what was created\<close>

text \<open>
  C4. On a model with the column \<^verbatim>\<open>pk\<close>, when a POST, run on a new session over any
  table, returns a response, that response has status 201 and the session saw add,
  commit and refresh in that order; the body is the new row, which carries an integer
  \<^verbatim>\<open>pk\<close> and is appended to the table; and a GET for that key, run on a new session
  over the table the POST left, answers 200 with the same body.
\<close>

theorem create_then_read:
  assumes "''pk'' \<in> set (columns m)"
    and "CreateHandler_handle m (SessionLocal sdb) post = (Inr resp, db')"
  shows "status resp = 201 \<and> calls db' = [CAdd, CCommit, CRefresh] \<and>
         (\<exists>row n. body resp = Some (JObj row) \<and> pk_of row = Some n \<and>
            storage db' = sdb @ [row] \<and>
            (\<forall>get s. map_of (match_info get) ''id'' = Some s \<and> py_int s = Inr n \<longrightarrow>
               fst (ReadHandler_handle m (SessionLocal (storage db')) get)
                 = Inr \<lparr>status = 200, body = body resp\<rparr>))"
proof -
  from create_success [OF assms] obtain new n
    where shape: "new = map (\<lambda>c. (c, value_at new c)) (columns m)"
      and key: "pk_of new = Some n" and range: "in_int64 n" and fresh: "\<not> pk_exists n sdb"
      and shadow: "map_of new ''as_dict'' = None" and table: "map_of new ''__table__'' = None"
      and resp: "resp = \<lparr>status = 201, body = Some (JObj new)\<rparr>"
      and stored: "storage db' = sdb @ [new]"
      and log: "calls db' = [CAdd, CCommit, CRefresh]"
    by blast
  have found: "find (\<lambda>r. pk_of r = Some n) (sdb @ [new]) = Some new"
    by (rule find_append_fresh [OF fresh key])
  have "fst (ReadHandler_handle m (SessionLocal (storage db')) get)
          = Inr \<lparr>status = 200, body = body resp\<rparr>"
    if "map_of (match_info get) ''id'' = Some s" and "py_int s = Inr n" for get s
    using read_found [OF that range found shape shadow table]
    by (simp add: stored resp)
  then show ?thesis
    using resp key stored log by auto
qed

theorem create_then_read_witness:
  "''pk'' \<in> set (columns thing) \<and>
   fst (CreateHandler_handle thing (SessionLocal thing_rows) post_a) =
     Inr \<lparr>status = 201, body = Some (JObj [(''pk'', JInt 2), (''name'', JStr ''a'')])\<rparr> \<and>
   fst (ReadHandler_handle thing
          (SessionLocal (storage (snd (CreateHandler_handle thing (SessionLocal thing_rows) post_a))))
          get_2) =
     Inr \<lparr>status = 200, body = Some (JObj [(''pk'', JInt 2), (''name'', JStr ''a'')])\<rparr>"
proof -
  have h1: "''pk'' \<in> set (columns thing)" by (simp add: thing_def)
  from create_then_read [OF h1 create_post_a] obtain row n
    where row: "Some (JObj [(''pk'', JInt 2), (''name'', JStr ''a'')]) = Some (JObj row)"
      and n: "pk_of row = Some n"
      and get: "\<And>get s. map_of (match_info get) ''id'' = Some s \<Longrightarrow> py_int s = Inr n \<Longrightarrow>
                 fst (ReadHandler_handle thing
                   (SessionLocal [[(''pk'', JInt 1), (''name'', JStr ''x'')],
                                  [(''pk'', JInt 2), (''name'', JStr ''a'')]]) get)
                 = Inr \<lparr>status = 200, body = Some (JObj [(''pk'', JInt 2), (''name'', JStr ''a'')])\<rparr>"
    by auto
  from row n have "n = 2" by (auto simp: pk_of_def)
  with get [of get_2 "codes ''2''"] py_int_2 h1 show ?thesis
    by (simp add: create_post_a get_2_def)
qed

section \<open>What an update persists\<close>

text \<open>
  C8, as amended. Let a PUT whose body is a JSON object (its keys distinct, as those of
  a dict are) run on a new session and answer 200. Then PATCH gives the same outcome,
  and after the commit the row of the entity, found in the table under its key and
  returned as the body, holds in every column that the body names the supplied value
  as the column stores it (the supplied value itself, or what the column's type makes
  of it), and in every column that the body does not name the value it held before; the
  rows of other keys are as they were.
\<close>

theorem update_persists_coerced_fields:
  assumes "json_result request = Inr (JObj kvs)"
    and "distinct (map fst kvs)"
    and "UpdateHandler_handle m (SessionLocal sdb) request = (Inr resp, db')"
    and "status resp = 200"
  shows "PatchHandler_handle m (SessionLocal sdb) request = (Inr resp, db') \<and>
         (\<exists>s n old upd new n'.
            map_of (match_info request) ''id'' = Some s \<and> py_int s = Inr n \<and>
            find (\<lambda>r. pk_of r = Some n) sdb = Some old \<and>
            new = AList.merge old upd \<and>
            storage db' =
              map (\<lambda>row. if pk_of row = Some n then AList.merge row upd else row) sdb \<and>
            pk_of new = Some n' \<and>
            find (\<lambda>r. pk_of r = Some n') (storage db') = Some new \<and>
            body resp = Some (JObj (as_dict m (load new))) \<and>
            calls db' = [CQuery, CAdd, CCommit, CRefresh] \<and>
            (\<forall>(k, v) \<in> set kvs.
               k \<in> set (columns m) \<longrightarrow>
               value_at new k = v \<or> coerce m k v = Inr (value_at new k)) \<and>
            (\<forall>c \<in> set (columns m).
               c \<notin> fst ` set kvs \<longrightarrow> value_at new c = value_at old c))"
proof -
  from update_success [OF assms(3,4)] assms(1) obtain s n old e upd n'
    where id: "map_of (match_info request) ''id'' = Some s" and n: "py_int s = Inr n"
      and old: "find (\<lambda>r. pk_of r = Some n) sdb = Some old"
      and e: "e = setattr_items (load old) kvs"
      and upd: "coerce_columns m e (changed_columns m e) = Inr upd"
      and key: "pk_of (AList.merge old upd) = Some n'"
      and found: "find (\<lambda>r. pk_of r = Some n')
                    (map (\<lambda>row. if pk_of row = Some n then AList.merge row upd else row) sdb)
                  = Some (AList.merge old upd)"
      and resp: "resp = \<lparr>status = 200,
                         body = Some (JObj (as_dict m (load (AList.merge old upd))))\<rparr>"
      and db': "db' = \<lparr>storage = map (\<lambda>row. if pk_of row = Some n
                                           then AList.merge row upd else row) sdb,
                  objects = [e\<lparr>ident := Some n',
                               attrs := AList.merge (attrs e) (AList.merge old upd),
                               loaded := AList.merge old upd\<rparr>],
                  pending = [], removed = [], is_open = True,
                  calls = [CQuery, CAdd, CCommit, CRefresh]\<rparr>"
    by auto
  let ?new = "AList.merge old upd"
  have patch: "PatchHandler_handle m (SessionLocal sdb) request = (Inr resp, db')"
    using assms(3) unfolding UpdateHandler_handle_def PatchHandler_handle_def .
  from coerce_columns_Inr [OF upd]
  have shape: "upd = map (\<lambda>c. (c, value_at upd c)) (changed_columns m e)"
    and coerced: "\<And>c. c \<in> set (changed_columns m e) \<Longrightarrow>
                    coerce m c (getattr e c) = Inr (value_at upd c)"
    by blast+
  note merged = merge_value [OF shape, of old]
  have loaded: "loaded e = old"
    by (simp add: e setattr_items_ident load_def)
  have supplied: "value_at ?new k = v \<or> coerce m k v = Inr (value_at ?new k)"
    if "(k, v) \<in> set kvs" and col: "k \<in> set (columns m)" for k v
  proof -
    have "map_of (attrs e) k = Some v"
      unfolding e by (rule setattr_items_present [OF assms(2) that(1)])
    then have v: "getattr e k = v"
      by (simp add: getattr_def value_at_def)
    show ?thesis
    proof (cases "k \<in> set (changed_columns m e)")
      case True
      with coerced [OF True] v show ?thesis by (simp add: merged)
    next
      case False
      with col v have "value_at old k = v"
        by (simp add: changed_columns_def loaded)
      with False show ?thesis by (simp add: merged)
    qed
  qed
  have kept: "value_at ?new c = value_at old c"
    if col: "c \<in> set (columns m)" and "c \<notin> fst ` set kvs" for c
  proof -
    have "map_of (attrs e) c = map_of (attrs (load old)) c"
      unfolding e by (rule setattr_items_absent [OF that(2)])
    then have "getattr e c = value_at old c"
      by (simp add: getattr_def value_at_def load_def)
    then have "c \<notin> set (changed_columns m e)"
      by (simp add: changed_columns_def loaded)
    then show ?thesis by (simp add: merged)
  qed
  have "storage db' = map (\<lambda>row. if pk_of row = Some n then AList.merge row upd else row) sdb"
    and "find (\<lambda>r. pk_of r = Some n') (storage db') = Some ?new"
    and "body resp = Some (JObj (as_dict m (load ?new)))"
    and "calls db' = [CQuery, CAdd, CCommit, CRefresh]"
    using found by (simp_all add: db' resp)
  moreover have "\<forall>(k, v) \<in> set kvs.
               k \<in> set (columns m) \<longrightarrow>
               value_at ?new k = v \<or> coerce m k v = Inr (value_at ?new k)"
    using supplied by blast
  moreover have "\<forall>c \<in> set (columns m).
               c \<notin> fst ` set kvs \<longrightarrow> value_at ?new c = value_at old c"
    using kept by blast
  ultimately show ?thesis
    using patch id n old key by blast
qed

theorem update_persists_coerced_fields_witness:
  "json_result put_b = Inr (JObj [(''name'', JStr ''b'')]) \<and>
   distinct (map fst [(''name'', JStr ''b'')]) \<and>
   fst (UpdateHandler_handle thing (SessionLocal thing_rows) put_b) =
     Inr \<lparr>status = 200, body = Some (JObj [(''pk'', JInt 1), (''name'', JStr ''b'')])\<rparr> \<and>
   storage (snd (UpdateHandler_handle thing (SessionLocal thing_rows) put_b)) =
     [[(''pk'', JInt 1), (''name'', JStr ''b'')]] \<and>
   PatchHandler_handle thing (SessionLocal thing_rows) put_b =
     UpdateHandler_handle thing (SessionLocal thing_rows) put_b"
proof -
  have h1: "json_result put_b = Inr (JObj [(''name'', JStr ''b'')])" by (simp add: put_b_def)
  have h2: "distinct (map fst [(''name'', JStr ''b'')])" by simp
  have h4: "status \<lparr>status = 200,
              body = Some (JObj [(''pk'', JInt 1), (''name'', JStr ''b'')])\<rparr> = 200"
    by simp
  from update_persists_coerced_fields [OF h1 h2 update_put_b h4]
  have "PatchHandler_handle thing (SessionLocal thing_rows) put_b =
          UpdateHandler_handle thing (SessionLocal thing_rows) put_b"
    by (simp add: update_put_b)
  then show ?thesis
    using h1 by (simp add: update_put_b)
qed

text \<open>
  C8 as it was stated fails. A PUT of \<^verbatim>\<open>{"name": 5}\<close> on the entity of key 1 answers
  200, and the \<^verbatim>\<open>String\<close> column holds the text \<^verbatim>\<open>'5'\<close> after the commit, in the
  table and in the body, not the supplied integer 5.
\<close>

theorem update_stores_text_counterexample:
  "json_result put_5 = Inr (JObj [(''name'', JInt 5)]) \<and>
   fst (UpdateHandler_handle thing (SessionLocal thing_rows) put_5) =
     Inr \<lparr>status = 200, body = Some (JObj [(''pk'', JInt 1), (''name'', JStr ''5'')])\<rparr> \<and>
   storage (snd (UpdateHandler_handle thing (SessionLocal thing_rows) put_5)) =
     [[(''pk'', JInt 1), (''name'', JStr ''5'')]] \<and>
   value_at (hd (storage (snd (UpdateHandler_handle thing (SessionLocal thing_rows) put_5))))
     ''name'' \<noteq> JInt 5"
proof -
  have "json_result put_5 = Inr (JObj [(''name'', JInt 5)])"
    by (simp add: put_5_def)
  then show ?thesis
    by (simp add: update_put_5 value_at_def)
qed

end
